theory Spec2Isabelle
  imports Complex_Main "HOL-Library.Multiset"
begin

section \<open>JavaScript numbers and values\<close>

text \<open>
  A JavaScript number is modelled as an exact real, or one of the three special values
  of IEEE arithmetic. Rounding, overflow to an infinity and the sign of zero are not
  modelled: a finite operation on finite operands is exact, and zero is positive zero.
\<close>

datatype jsnum = Fin real | PInf | NInf | NaN

fun num_neg :: "jsnum \<Rightarrow> jsnum" where
  "num_neg (Fin a) = Fin (- a)"
| "num_neg PInf = NInf"
| "num_neg NInf = PInf"
| "num_neg NaN = NaN"

fun num_add :: "jsnum \<Rightarrow> jsnum \<Rightarrow> jsnum" where
  "num_add NaN _ = NaN"
| "num_add _ NaN = NaN"
| "num_add (Fin a) (Fin b) = Fin (a + b)"
| "num_add PInf NInf = NaN"
| "num_add NInf PInf = NaN"
| "num_add PInf _ = PInf"
| "num_add NInf _ = NInf"
| "num_add (Fin a) PInf = PInf"
| "num_add (Fin a) NInf = NInf"

definition num_sub :: "jsnum \<Rightarrow> jsnum \<Rightarrow> jsnum" where
  "num_sub a b = num_add a (num_neg b)"

text \<open>The sign of a number that is not NaN: \<open>-1\<close>, \<open>0\<close> or \<open>1\<close>.\<close>

fun num_sgn :: "jsnum \<Rightarrow> int" where
  "num_sgn (Fin a) = (if a < 0 then - 1 else if a = 0 then 0 else 1)"
| "num_sgn PInf = 1"
| "num_sgn NInf = - 1"
| "num_sgn NaN = 0"

definition signed_inf :: "int \<Rightarrow> jsnum" where
  "signed_inf s = (if s < 0 then NInf else PInf)"

fun num_mul :: "jsnum \<Rightarrow> jsnum \<Rightarrow> jsnum" where
  "num_mul NaN _ = NaN"
| "num_mul _ NaN = NaN"
| "num_mul (Fin a) (Fin b) = Fin (a * b)"
| "num_mul a b =
     (if num_sgn a = 0 \<or> num_sgn b = 0 then NaN else signed_inf (num_sgn a * num_sgn b))"

fun num_div :: "jsnum \<Rightarrow> jsnum \<Rightarrow> jsnum" where
  "num_div NaN _ = NaN"
| "num_div _ NaN = NaN"
| "num_div (Fin a) (Fin b) =
     (if b \<noteq> 0 then Fin (a / b)
      else if a = 0 then NaN
      else signed_inf (num_sgn (Fin a)))"
| "num_div (Fin a) _ = Fin 0"
| "num_div a (Fin b) = signed_inf (num_sgn a * (if b < 0 then - 1 else 1))"
| "num_div _ _ = NaN"

fun num_lt :: "jsnum \<Rightarrow> jsnum \<Rightarrow> bool" where
  "num_lt NaN _ = False"
| "num_lt _ NaN = False"
| "num_lt (Fin a) (Fin b) = (a < b)"
| "num_lt NInf b = (b \<noteq> NInf)"
| "num_lt a PInf = (a \<noteq> PInf)"
| "num_lt _ _ = False"

definition num_gt :: "jsnum \<Rightarrow> jsnum \<Rightarrow> bool" where
  "num_gt a b = num_lt b a"

fun num_eq :: "jsnum \<Rightarrow> jsnum \<Rightarrow> bool" where
  "num_eq NaN _ = False"
| "num_eq _ NaN = False"
| "num_eq a b = (a = b)"

definition num_ge :: "jsnum \<Rightarrow> jsnum \<Rightarrow> bool" where
  "num_ge a b = (num_lt b a \<or> num_eq a b)"



text \<open>
  The values the modelled code handles: \<open>undefined\<close> (also what reading an absent
  property gives), numbers, and plain objects written as object literals.
\<close>

datatype jsval = JUndefined | JNum jsnum | JObj "(string \<times> jsval) list"

text \<open>
  \<open>ToNumber\<close>: \<open>undefined\<close> is NaN; a plain object converts through its default
  \<open>toString\<close>, the text \<open>[object Object]\<close>, which is not a numeric literal, so it is NaN.
\<close>

fun ToNumber :: "jsval \<Rightarrow> jsnum" where
  "ToNumber JUndefined = NaN"
| "ToNumber (JNum n) = n"
| "ToNumber (JObj _) = NaN"

text \<open>The operators \<open>*\<close>, \<open>/\<close>, \<open>-\<close>, \<open><\<close>, \<open>>\<close> and \<open>>=\<close> convert both operands with \<open>ToNumber\<close>.\<close>

definition js_mul :: "jsval \<Rightarrow> jsval \<Rightarrow> jsval" where
  "js_mul a b = JNum (num_mul (ToNumber a) (ToNumber b))"

definition js_div :: "jsval \<Rightarrow> jsval \<Rightarrow> jsval" where
  "js_div a b = JNum (num_div (ToNumber a) (ToNumber b))"

definition js_sub :: "jsval \<Rightarrow> jsval \<Rightarrow> jsval" where
  "js_sub a b = JNum (num_sub (ToNumber a) (ToNumber b))"

definition js_lt :: "jsval \<Rightarrow> jsval \<Rightarrow> bool" where
  "js_lt a b = num_lt (ToNumber a) (ToNumber b)"

definition js_gt :: "jsval \<Rightarrow> jsval \<Rightarrow> bool" where
  "js_gt a b = num_gt (ToNumber a) (ToNumber b)"

definition js_ge :: "jsval \<Rightarrow> jsval \<Rightarrow> bool" where
  "js_ge a b = num_ge (ToNumber a) (ToNumber b)"

text \<open>
  The operator \<open>+\<close> adds two operands that are numbers or \<open>undefined\<close>. With an object
  operand it concatenates strings instead; the result contains \<open>[object Object]\<close>, and
  every later numeric use of it is NaN, which is the value kept here.
\<close>

fun js_add :: "jsval \<Rightarrow> jsval \<Rightarrow> jsval" where
  "js_add (JObj _) _ = JNum NaN"
| "js_add _ (JObj _) = JNum NaN"
| "js_add a b = JNum (num_add (ToNumber a) (ToNumber b))"

abbreviation num :: "real \<Rightarrow> jsval" where
  "num r \<equiv> JNum (Fin r)"

section \<open>The decision engine (class EnhancedTradingAnalyzer)\<close>

text \<open>The five action strings \<open>determineAction\<close> returns.\<close>

datatype action = AVOID | STRONG_BUY | WAIT | BUY | MONITOR

text \<open>
  The \<open>scores\<close> object. A property the caller did not put in the object literal reads
  as \<open>undefined\<close>.
\<close>

record scores =
  whaleScore :: jsval
  healthScore :: jsval
  smartMoneyScore :: jsval
  riskScore :: jsval
  overallScore :: jsval

definition determineAction :: "scores \<Rightarrow> action" where
  "determineAction scores =
     (if js_lt (riskScore scores) (num 0.7) then AVOID
      else if js_gt (whaleScore scores) (num 0.8) \<and> js_gt (smartMoneyScore scores) (num 0.7)
        then STRONG_BUY
      else if js_lt (healthScore scores) (num 0.5) then WAIT
      else if js_gt (overallScore scores) (num 0.75) then BUY else MONITOR)"


text \<open>
  The class calls methods it does not define: the four metric providers, the
  normaliser, the health and risk calculators, the weighting, the two smart-money
  analysers, the confidence and the four policy functions of a recommendation. They are
  parameters of the model, gathered in one record.
\<close>

record buys =
  volume :: jsval
  timeFrame :: jsval

record whaleActivity =
  wa_buys :: buys
  avgHoldTime :: jsval
  avgTradeSize :: jsval
  wa_walletAge :: jsval

record tokenMetrics =
  holderDistribution :: jsval
  liquidityDepth :: jsval
  volumeProfile :: jsval
  priceImpact :: jsval

record smartMoneyFlow =
  inflow :: jsval
  outflow :: jsval
  sm_pattern :: jsval
  sm_walletQuality :: jsval

record manipulationScore =
  indicators :: jsval
  washTrading :: jsval
  frontRunning :: jsval
  contractSafety :: jsval

text \<open>The argument objects the calculators are called with.\<close>

record whaleMetrics =
  recentBuys :: buys
  holdingTime :: jsval
  tradeSize :: jsval
  walletAge :: jsval

text \<open>
  \<open>analyzeSmartMoney\<close> reads \<open>flow.pattern\<close>; the object its caller builds has the
  property \<open>accumulationPattern\<close> and no \<open>pattern\<close>, which then reads as \<open>undefined\<close>.
\<close>

record flow =
  inflowRate :: jsval
  outflowRate :: jsval
  accumulationPattern :: jsval
  walletQuality :: jsval
  pattern :: jsval

record riskInputs =
  manipulationIndicators :: jsval
  washTradingLevel :: jsval
  frontRunningRisk :: jsval
  contractRisk :: jsval

record positionInputs =
  confidence :: jsval
  risk :: jsval
  marketConditions :: jsval

text \<open>
  A promise that has settled: the logical time at which it settled and its outcome,
  \<open>Inl\<close> a rejection reason or \<open>Inr\<close> the value it was fulfilled with.
\<close>

record ('e, 'a) promise =
  settledAt :: nat
  outcome :: "'e + 'a"

record 'e analyzer_env =
  getWhaleActivity :: "string \<Rightarrow> string \<Rightarrow> ('e, whaleActivity) promise"
  getTokenMetrics :: "string \<Rightarrow> ('e, tokenMetrics) promise"
  getSmartMoneyFlow :: "string \<Rightarrow> ('e, smartMoneyFlow) promise"
  assessManipulation :: "string \<Rightarrow> ('e, manipulationScore) promise"
  normalizeTradeSize :: "jsval \<Rightarrow> jsval"
  calculateHealthScore :: "tokenMetrics \<Rightarrow> jsval"
  calculateRiskScore :: "riskInputs \<Rightarrow> jsval"
  computeWeightedScore :: "scores \<Rightarrow> jsval"
  analyzeAccumulationPattern :: "jsval \<Rightarrow> jsval"
  assessWalletQuality :: "jsval \<Rightarrow> jsval"
  calculateConfidence :: "flow \<Rightarrow> jsval"
  calculateOptimalPosition :: "positionInputs \<Rightarrow> jsval"
  suggestEntryTiming :: "scores \<Rightarrow> jsval"
  calculateStopLoss :: "scores \<Rightarrow> jsval"
  calculateTakeProfit :: "scores \<Rightarrow> jsval"

definition calculateWhaleScore :: "('e, 'z) analyzer_env_scheme \<Rightarrow> whaleMetrics \<Rightarrow> jsval" where
  "calculateWhaleScore env metrics =
     (let buyPressure = js_div (volume (recentBuys metrics)) (timeFrame (recentBuys metrics));
          holdingQuality = js_mul (holdingTime metrics) (walletAge metrics);
          sizeImpact = normalizeTradeSize env (tradeSize metrics)
      in js_add (js_add (js_mul buyPressure (num 0.4)) (js_mul holdingQuality (num 0.4)))
           (js_mul sizeImpact (num 0.2)))"

text \<open>The result is an object with the two properties \<open>score\<close> and \<open>confidence\<close>.\<close>

definition analyzeSmartMoney :: "('e, 'z) analyzer_env_scheme \<Rightarrow> flow \<Rightarrow> jsval" where
  "analyzeSmartMoney env flow =
     (let netFlow = js_sub (inflowRate flow) (outflowRate flow);
          accumulation = analyzeAccumulationPattern env (pattern flow);
          walletQuality_v = assessWalletQuality env (walletQuality flow)
      in JObj [(''score'',
                js_add (js_add (js_mul netFlow (num 0.4)) (js_mul accumulation (num 0.3)))
                  (js_mul walletQuality_v (num 0.3))),
               (''confidence'', calculateConfidence env flow)])"

text \<open>Reading a property of a value: an object literal has the properties written in it.\<close>

fun js_get :: "jsval \<Rightarrow> string \<Rightarrow> jsval" where
  "js_get (JObj fs) k = (case map_of fs k of Some v \<Rightarrow> v | None \<Rightarrow> JUndefined)"
| "js_get _ k = JUndefined"

record recommendation =
  action :: action
  size_r :: jsval
  timing :: jsval
  stopLoss_r :: jsval
  takeProfit :: jsval

definition generateTradeRecommendation ::
  "('e, 'z) analyzer_env_scheme \<Rightarrow> scores \<Rightarrow> recommendation" where
  "generateTradeRecommendation env scores =
     (let positionSize = calculateOptimalPosition env
            \<lparr>confidence = js_div (js_add (whaleScore scores) (smartMoneyScore scores)) (num 2),
             risk = riskScore scores,
             marketConditions = healthScore scores\<rparr>
      in \<lparr>action = determineAction scores,
          size_r = positionSize,
          timing = suggestEntryTiming env scores,
          stopLoss_r = calculateStopLoss env scores,
          takeProfit = calculateTakeProfit env scores\<rparr>)"

text \<open>
  \<open>Promise.all\<close> over four promises: fulfilled with the four values when all are
  fulfilled, and otherwise rejected with the reason of the promise that was rejected
  first (the earlier array position when two settle at the same time).
\<close>

definition rejection :: "('e, 'a) promise \<Rightarrow> (nat \<times> 'e) list" where
  "rejection p = (case outcome p of Inl e \<Rightarrow> [(settledAt p, e)] | Inr _ \<Rightarrow> [])"

fun earliest :: "(nat \<times> 'e) \<Rightarrow> (nat \<times> 'e) list \<Rightarrow> (nat \<times> 'e)" where
  "earliest r [] = r"
| "earliest r (r' # rs) = earliest (if fst r' < fst r then r' else r) rs"

definition promise_all4 ::
  "('e, 'a) promise \<Rightarrow> ('e, 'b) promise \<Rightarrow> ('e, 'c) promise \<Rightarrow> ('e, 'd) promise
    \<Rightarrow> 'e + ('a \<times> 'b \<times> 'c \<times> 'd)" where
  "promise_all4 p1 p2 p3 p4 =
     (case outcome p1 of
        Inl e1 \<Rightarrow>
          Inl (snd (earliest (settledAt p1, e1) (rejection p2 @ rejection p3 @ rejection p4)))
      | Inr a \<Rightarrow>
     (case outcome p2 of
        Inl e2 \<Rightarrow> Inl (snd (earliest (settledAt p2, e2) (rejection p3 @ rejection p4)))
      | Inr b \<Rightarrow>
     (case outcome p3 of
        Inl e3 \<Rightarrow> Inl (snd (earliest (settledAt p3, e3) (rejection p4)))
      | Inr c \<Rightarrow>
     (case outcome p4 of
        Inl e4 \<Rightarrow> Inl e4
      | Inr d \<Rightarrow> Inr (a, b, c, d)))))"

text \<open>The rejections among the four provider calls, in the order of the array.\<close>

definition provider_rejections ::
  "('e, 'z) analyzer_env_scheme \<Rightarrow> string \<Rightarrow> string \<Rightarrow> (nat \<times> 'e) list" where
  "provider_rejections env tokenAddress chain =
     rejection (getWhaleActivity env tokenAddress chain)
     @ rejection (getTokenMetrics env tokenAddress)
     @ rejection (getSmartMoneyFlow env tokenAddress)
     @ rejection (assessManipulation env tokenAddress)"

record details =
  whaleActivity :: whaleActivity
  tokenMetrics :: tokenMetrics
  smartMoneyFlow :: smartMoneyFlow
  manipulationScore :: manipulationScore

record analysis =
  analysis_overallScore :: jsval
  details :: details
  recommendation :: recommendation

text \<open>
  The \<open>async\<close> method (the four results are written \<open>wa\<close>, \<open>tm\<close>, \<open>smf\<close> and
  \<open>ms\<close>, and a local constant that shares its name with a property has the suffix
  \<open>_v\<close>): its promise is rejected with the reason \<open>Promise.all\<close> was
  rejected with, and otherwise fulfilled with the analysis object.
\<close>

definition analyzeTradeOpportunity ::
  "('e, 'z) analyzer_env_scheme \<Rightarrow> string \<Rightarrow> string \<Rightarrow> 'e + analysis" where
  "analyzeTradeOpportunity env tokenAddress chain =
     (case promise_all4 (getWhaleActivity env tokenAddress chain)
             (getTokenMetrics env tokenAddress)
             (getSmartMoneyFlow env tokenAddress)
             (assessManipulation env tokenAddress) of
        Inl e \<Rightarrow> Inl e
      | Inr (wa, tm, smf, ms) \<Rightarrow>
          (let whaleScore_v = calculateWhaleScore env
                 \<lparr>recentBuys = wa_buys wa,
                  holdingTime = avgHoldTime wa,
                  tradeSize = avgTradeSize wa,
                  walletAge = wa_walletAge wa\<rparr>;
               healthScore_v = calculateHealthScore env
                 \<lparr>holderDistribution = holderDistribution tm,
                  liquidityDepth = liquidityDepth tm,
                  volumeProfile = volumeProfile tm,
                  priceImpact = priceImpact tm\<rparr>;
               smartMoneyScore_v = analyzeSmartMoney env
                 \<lparr>inflowRate = inflow smf,
                  outflowRate = outflow smf,
                  accumulationPattern = sm_pattern smf,
                  walletQuality = sm_walletQuality smf,
                  pattern = JUndefined\<rparr>;
               riskScore_v = calculateRiskScore env
                 \<lparr>manipulationIndicators = indicators ms,
                  washTradingLevel = washTrading ms,
                  frontRunningRisk = frontRunning ms,
                  contractRisk = contractSafety ms\<rparr>
           in Inr \<lparr>analysis_overallScore = computeWeightedScore env
                      \<lparr>whaleScore = js_mul whaleScore_v (num 0.3),
                       healthScore = js_mul healthScore_v (num 0.25),
                       smartMoneyScore = js_mul smartMoneyScore_v (num 0.25),
                       riskScore = js_mul riskScore_v (num 0.2),
                       overallScore = JUndefined\<rparr>,
                    details = \<lparr>whaleActivity = wa,
                               tokenMetrics = tm,
                               smartMoneyFlow = smf,
                               manipulationScore = ms\<rparr>,
                    recommendation = generateTradeRecommendation env
                      \<lparr>whaleScore = whaleScore_v,
                       healthScore = healthScore_v,
                       smartMoneyScore = smartMoneyScore_v,
                       riskScore = riskScore_v,
                       overallScore = JUndefined\<rparr>\<rparr>))"


section \<open>The risk manager (class RiskManager)\<close>

text \<open>\<open>a || b\<close> is \<open>a\<close> when \<open>a\<close> is truthy; 0, NaN and \<open>undefined\<close> are not.\<close>

fun truthy :: "jsval \<Rightarrow> bool" where
  "truthy JUndefined = False"
| "truthy (JNum n) = (n \<noteq> Fin 0 \<and> n \<noteq> NaN)"
| "truthy (JObj _) = True"

definition js_or :: "jsval \<Rightarrow> jsval \<Rightarrow> jsval" where
  "js_or a b = (if truthy a then a else b)"

record config =
  cfg_maxLossPerTrade :: jsval
  cfg_maxDailyLoss :: jsval
  cfg_maxPositionSize :: jsval

record riskManager =
  maxLossPerTrade :: jsval
  maxDailyLoss :: jsval
  maxPositionSize :: jsval
  dailyLoss :: jsval

text \<open>
  The constructor. It also registers the job of \<open>resetDailyLoss\<close> with the scheduler;
  the scheduler is outside the model, and the job's callback is \<open>resetDailyLoss_job\<close>.
\<close>

definition newRiskManager :: "config \<Rightarrow> riskManager" where
  "newRiskManager cfg =
     \<lparr>maxLossPerTrade = js_or (cfg_maxLossPerTrade cfg) (num 2),
      maxDailyLoss = js_or (cfg_maxDailyLoss cfg) (num 6),
      maxPositionSize = js_or (cfg_maxPositionSize cfg) (num 5),
      dailyLoss = num 0\<rparr>"

definition resetDailyLoss_job :: "riskManager \<Rightarrow> riskManager" where
  "resetDailyLoss_job rm = rm\<lparr>dailyLoss := num 0\<rparr>"

text \<open>
  The two reasons are template strings that interpolate the limit; the model keeps the
  kind of the reason and the interpolated value.
\<close>

datatype reason = DailyLossLimitReached jsval | TradeRiskExceedsMaxLoss jsval

record validation =
  valid :: bool
  reason :: "reason option"

record takeProfitEntry =
  price :: jsval
  positionSize :: jsval

text \<open>
  A trade object. \<open>takeProfitTargets_t\<close> is \<open>None\<close> until \<open>executeTrade\<close> assigns the
  property.
\<close>

record trade =
  size_t :: jsval
  entryPrice :: jsval
  stopLoss :: jsval
  takeProfitTargets_t :: "takeProfitEntry list option"

definition validateTrade :: "riskManager \<Rightarrow> trade \<Rightarrow> validation" where
  "validateTrade rm trade =
     (if js_ge (dailyLoss rm) (maxDailyLoss rm)
      then \<lparr>valid = False, reason = Some (DailyLossLimitReached (maxDailyLoss rm))\<rparr>
      else
        let potentialLoss = js_mul (size_t trade) (js_div (stopLoss trade) (num 100))
        in if js_gt potentialLoss (maxLossPerTrade rm)
           then \<lparr>valid = False, reason = Some (TradeRiskExceedsMaxLoss (maxLossPerTrade rm))\<rparr>
           else \<lparr>valid = True, reason = None\<rparr>)"

section \<open>The strategies (class TechnicalStrategyManager)\<close>

text \<open>
  A strategy, with the properties the modelled code reads or writes. The indicator
  parameters of each strategy (periods, thresholds) and the time stamp \<open>addStrategy\<close>
  adds are left out: no modelled code reads them.
\<close>

record sizing =
  percentage :: jsnum
  target :: jsnum

record entryConditions =
  ec_stopLoss :: jsnum
  takeProfitTargets :: "jsnum list"
  positionSizing :: "sizing list"

record strategy =
  name :: string
  description :: string
  entryConditions :: entryConditions
  enabled :: bool

text \<open>
  The \<open>Map\<close> of strategies keeps insertion order, which \<open>values()\<close> follows: an
  association list, where \<open>set\<close> replaces the value of a key in place and appends a new
  key.
\<close>

fun map_set :: "('k \<times> 'v) list \<Rightarrow> 'k \<Rightarrow> 'v \<Rightarrow> ('k \<times> 'v) list" where
  "map_set [] k v = [(k, v)]"
| "map_set ((k', v') # kvs) k v =
     (if k' = k then (k, v) # kvs else (k', v') # map_set kvs k v)"

definition map_get :: "('k \<times> 'v) list \<Rightarrow> 'k \<Rightarrow> 'v option" where
  "map_get kvs k = map_of kvs k"

record strategyManager =
  strategies :: "(string \<times> strategy) list"
  riskManager :: riskManager

definition addStrategy :: "strategyManager \<Rightarrow> string \<Rightarrow> strategy \<Rightarrow> strategyManager" where
  "addStrategy m id_s s = m\<lparr>strategies := map_set (strategies m) id_s (s\<lparr>enabled := False\<rparr>)\<rparr>"

text \<open>
  The entry conditions of the three built-in strategies are object literals of one
  shape: stop-loss 2, three targets, and the sizing 40, 30, 30 on the same targets.
\<close>

definition threeTargets :: "real \<Rightarrow> real \<Rightarrow> real \<Rightarrow> entryConditions" where
  "threeTargets a b c =
     \<lparr>ec_stopLoss = Fin 2,
      takeProfitTargets = [Fin a, Fin b, Fin c],
      positionSizing = [\<lparr>percentage = Fin 40, target = Fin a\<rparr>,
                        \<lparr>percentage = Fin 30, target = Fin b\<rparr>,
                        \<lparr>percentage = Fin 30, target = Fin c\<rparr>]\<rparr>"

definition initializeTechnicalStrategies :: "strategyManager \<Rightarrow> strategyManager" where
  "initializeTechnicalStrategies m =
     (let m1 = addStrategy m ''breakout''
                 \<lparr>name = ''Smart Breakout Trading'',
                  description = ''Trades breakouts with volume confirmation'',
                  entryConditions = threeTargets 6 12 18, enabled = False\<rparr>;
          m2 = addStrategy m1 ''movingAverages''
                 \<lparr>name = ''Triple Moving Average Crossover'',
                  description = ''Uses 8, 21, 55 EMAs with volume confirmation'',
                  entryConditions = threeTargets 5 10 15, enabled = False\<rparr>
      in addStrategy m2 ''volumeAnalysis''
           \<lparr>name = ''Smart Volume Analysis'',
            description = ''Trades based on volume patterns'',
            entryConditions = threeTargets 4 8 12, enabled = False\<rparr>)"

definition newTechnicalStrategyManager :: "config \<Rightarrow> strategyManager" where
  "newTechnicalStrategyManager cfg =
     initializeTechnicalStrategies \<lparr>strategies = [], riskManager = newRiskManager cfg\<rparr>"

definition validateStrategy :: "strategyManager \<Rightarrow> strategy \<Rightarrow> trade \<Rightarrow> validation" where
  "validateStrategy m s trade =
     validateTrade (riskManager m) (trade\<lparr>stopLoss := JNum (ec_stopLoss (entryConditions s))\<rparr>)"

text \<open>The handler of \<open>/strategy activate id\<close> sets \<open>enabled\<close> of a strategy that exists.\<close>

definition activate :: "strategyManager \<Rightarrow> string \<Rightarrow> strategyManager" where
  "activate m id_s =
     (case map_get (strategies m) id_s of
        Some s \<Rightarrow> m\<lparr>strategies := map_set (strategies m) id_s (s\<lparr>enabled := True\<rparr>)\<rparr>
      | None \<Rightarrow> m)"


section \<open>The bot (class ConsolidatedTelegramTradingBot)\<close>

subsection \<open>The handler of the command \<open>settp\<close>\<close>















subsection \<open>\<open>executeTrade\<close>\<close>

text \<open>What the method throws.\<close>

datatype exn = NoActiveStrategy | TradeValidationFailed "reason option" | TypeError

text \<open>
  The callback of \<open>map\<close> over the targets. Reading \<open>percentage\<close> of
  \<open>positionSizing[index]\<close> throws a \<open>TypeError\<close> when the index is out of range.
\<close>

fun takeProfitEntries :: "trade \<Rightarrow> sizing list \<Rightarrow> nat \<Rightarrow> jsnum list \<Rightarrow> exn + takeProfitEntry list" where
  "takeProfitEntries trade ps index [] = Inr []"
| "takeProfitEntries trade ps index (t # ts) =
     (if index < length ps then
        (case takeProfitEntries trade ps (Suc index) ts of
           Inl e \<Rightarrow> Inl e
         | Inr es \<Rightarrow>
             Inr (\<lparr>price = js_mul (entryPrice trade)
                              (js_add (num 1) (js_div (JNum t) (num 100))),
                   positionSize = js_mul (js_div (JNum (percentage (ps ! index))) (num 100))
                                    (size_t trade)\<rparr> # es))
      else Inl TypeError)"

text \<open>
  The method is \<open>async\<close> and calls itself in its last statement, so it may never settle:
  \<open>None\<close> is a promise that stays pending for ever, \<open>Some (Inl e)\<close> a rejection and
  \<open>Some (Inr t)\<close> a returned trade. The manager is not changed by the method, and no
  other handler is taken to run between two of its steps.
\<close>

partial_function (option) executeTrade :: "strategyManager \<Rightarrow> trade \<Rightarrow> (exn + trade) option" where
  "executeTrade m trade =
     (case find enabled (map snd (strategies m)) of
        None \<Rightarrow> Some (Inl NoActiveStrategy)
      | Some activeStrategy \<Rightarrow>
          let validation = validateStrategy m activeStrategy trade
          in if \<not> valid validation then Some (Inl (TradeValidationFailed (reason validation)))
             else
               (case takeProfitEntries trade (positionSizing (entryConditions activeStrategy)) 0
                       (takeProfitTargets (entryConditions activeStrategy)) of
                  Inl e \<Rightarrow> Some (Inl e)
                | Inr es \<Rightarrow>
                    executeTrade m
                      (trade\<lparr>takeProfitTargets_t := Some es,
                             stopLoss := JNum (ec_stopLoss (entryConditions activeStrategy))\<rparr>)))"


text \<open>
  A trade that \<open>executeTrade\<close> prepares with the manager in its present state: a strategy
  is enabled, the first enabled one validates the trade, and it has a sizing for each of
  its targets.
\<close>

definition prepares :: "strategyManager \<Rightarrow> trade \<Rightarrow> bool" where
  "prepares m trade =
     (case find enabled (map snd (strategies m)) of
        None \<Rightarrow> False
      | Some s \<Rightarrow>
          valid (validateStrategy m s trade)
          \<and> length (takeProfitTargets (entryConditions s))
               \<le> length (positionSizing (entryConditions s)))"

section \<open>Example inputs\<close>

text \<open>
  Modelled from the spec: \<open>normalizeTradeSize\<close> is not in the source; the spec gives the
  contract of the normaliser, \<open>normalize(value) -> [0,1]\<close>, monotonic. The function below
  is one such normaliser, the one that cuts a number off at 0 and at 1.
\<close>

definition unit_normalize :: "jsval \<Rightarrow> jsval" where
  "unit_normalize v =
     (case ToNumber v of
        Fin r \<Rightarrow> num (min 1 (max 0 r))
      | PInf \<Rightarrow> num 1
      | NInf \<Rightarrow> num 0
      | NaN \<Rightarrow> num 0)"

text \<open>
  An analyzer for the examples. Its four providers are fulfilled at the times 3, 1, 4
  and 2, and the methods the class does not define have simple bodies.
\<close>

definition example_env :: "string analyzer_env" where
  "example_env =
     \<lparr>getWhaleActivity = (\<lambda>tokenAddress chain.
        \<lparr>settledAt = 3,
         outcome = Inr \<lparr>wa_buys = \<lparr>volume = num 1, timeFrame = num 1\<rparr>,
                        avgHoldTime = num 1, avgTradeSize = num 0.25, wa_walletAge = num 1\<rparr>\<rparr>),
      getTokenMetrics = (\<lambda>tokenAddress.
        \<lparr>settledAt = 1,
         outcome = Inr \<lparr>holderDistribution = num 0.5, liquidityDepth = num 0.5,
                        volumeProfile = num 0.5, priceImpact = num 0.1\<rparr>\<rparr>),
      getSmartMoneyFlow = (\<lambda>tokenAddress.
        \<lparr>settledAt = 4,
         outcome = Inr \<lparr>inflow = num 1.5, outflow = num 0, sm_pattern = num 0.5,
                        sm_walletQuality = num 0\<rparr>\<rparr>),
      assessManipulation = (\<lambda>tokenAddress.
        \<lparr>settledAt = 2,
         outcome = Inr \<lparr>indicators = num 0, washTrading = num 0, frontRunning = num 0,
                        contractSafety = num 1\<rparr>\<rparr>),
      normalizeTradeSize = unit_normalize,
      calculateHealthScore = (\<lambda>metrics. num 0.9),
      calculateRiskScore = (\<lambda>metrics. num 0.8),
      computeWeightedScore = (\<lambda>weighted.
        js_add (js_add (js_add (whaleScore weighted) (healthScore weighted))
                  (smartMoneyScore weighted)) (riskScore weighted)),
      analyzeAccumulationPattern = (\<lambda>p. num 0.5),
      assessWalletQuality = (\<lambda>q. q),
      calculateConfidence = (\<lambda>flow. num 1),
      calculateOptimalPosition = (\<lambda>inputs. num 5),
      suggestEntryTiming = (\<lambda>scores. JUndefined),
      calculateStopLoss = (\<lambda>scores. num 2),
      calculateTakeProfit = (\<lambda>scores. JUndefined)\<rparr>"

text \<open>The same analyzer with a token-metrics provider that is rejected at time 1.\<close>

definition failing_env :: "string analyzer_env" where
  "failing_env =
     example_env\<lparr>getTokenMetrics :=
       (\<lambda>tokenAddress. \<lparr>settledAt = 1, outcome = Inl ''token metrics unavailable''\<rparr>)\<rparr>"

text \<open>The flow object \<open>analyzeTradeOpportunity\<close> builds from that smart-money result.\<close>

definition example_flow :: flow where
  "example_flow =
     \<lparr>inflowRate = num 1.5, outflowRate = num 0, accumulationPattern = num 0.5,
      walletQuality = num 0, pattern = JUndefined\<rparr>"

text \<open>The configuration at the end of the source file, and the manager built from it.\<close>

definition example_config :: config where
  "example_config =
     \<lparr>cfg_maxLossPerTrade = num 2, cfg_maxDailyLoss = num 6, cfg_maxPositionSize = num 5\<rparr>"

definition example_manager :: strategyManager where
  "example_manager = newTechnicalStrategyManager example_config"

section \<open>The decision table\<close>

text \<open>
  C1. For every score vector, if \<open>riskScore < 0.7\<close> then the action is \<open>AVOID\<close>, whatever
  the whale, smart-money, health and overall scores are: the risk rule is the first rule
  of \<open>determineAction\<close>, and the action of a recommendation is what \<open>determineAction\<close>
  returns.
\<close>

theorem determineAction_risk_first:
  "js_lt (riskScore scores) (num 0.7) \<Longrightarrow>
     determineAction scores = AVOID \<and> action (generateTradeRecommendation env scores) = AVOID"
  by (simp add: determineAction_def generateTradeRecommendation_def Let_def)

theorem determineAction_risk_first_witness:
  "js_lt (riskScore \<lparr>whaleScore = num 0.95, healthScore = num 0.95, smartMoneyScore = num 0.95,
                       riskScore = num 0.5, overallScore = num 0.95\<rparr>) (num 0.7)
   \<and> determineAction \<lparr>whaleScore = num 0.95, healthScore = num 0.95, smartMoneyScore = num 0.95,
                       riskScore = num 0.5, overallScore = num 0.95\<rparr> = AVOID
   \<and> action (generateTradeRecommendation example_env
               \<lparr>whaleScore = num 0.95, healthScore = num 0.95, smartMoneyScore = num 0.95,
                riskScore = num 0.5, overallScore = num 0.95\<rparr>) = AVOID"
proof -
  have h: "js_lt (riskScore \<lparr>whaleScore = num 0.95, healthScore = num 0.95,
                   smartMoneyScore = num 0.95, riskScore = num 0.5, overallScore = num 0.95\<rparr>)
             (num 0.7)"
    by (simp add: js_lt_def)
  from determineAction_risk_first [OF h, of example_env] h show ?thesis by blast
qed

section \<open>Trade validation\<close>



text \<open>
  C10. For every trade and every two risk managers that agree on \<open>maxLossPerTrade\<close>,
  \<open>maxDailyLoss\<close> and \<open>dailyLoss\<close>, \<open>validateTrade\<close> returns the same result: it never
  reads \<open>maxPositionSize\<close>.
\<close>

theorem validateTrade_ignores_maxPositionSize:
  "maxLossPerTrade rm1 = maxLossPerTrade rm2 \<Longrightarrow> maxDailyLoss rm1 = maxDailyLoss rm2 \<Longrightarrow>
   dailyLoss rm1 = dailyLoss rm2 \<Longrightarrow> validateTrade rm1 trade = validateTrade rm2 trade"
  by (simp add: validateTrade_def)

theorem validateTrade_ignores_maxPositionSize_witness:
  "maxPositionSize (newRiskManager (example_config\<lparr>cfg_maxPositionSize := num 1\<rparr>))
     \<noteq> maxPositionSize (newRiskManager (example_config\<lparr>cfg_maxPositionSize := num 1000\<rparr>))
   \<and> validateTrade (newRiskManager (example_config\<lparr>cfg_maxPositionSize := num 1\<rparr>))
       \<lparr>size_t = num 100, entryPrice = num 10, stopLoss = num 3, takeProfitTargets_t = None\<rparr>
     = validateTrade (newRiskManager (example_config\<lparr>cfg_maxPositionSize := num 1000\<rparr>))
       \<lparr>size_t = num 100, entryPrice = num 10, stopLoss = num 3, takeProfitTargets_t = None\<rparr>"
proof -
  have a: "maxLossPerTrade (newRiskManager (example_config\<lparr>cfg_maxPositionSize := num 1\<rparr>))
         = maxLossPerTrade (newRiskManager (example_config\<lparr>cfg_maxPositionSize := num 1000\<rparr>))"
    by (simp add: newRiskManager_def example_config_def)
  have b: "maxDailyLoss (newRiskManager (example_config\<lparr>cfg_maxPositionSize := num 1\<rparr>))
         = maxDailyLoss (newRiskManager (example_config\<lparr>cfg_maxPositionSize := num 1000\<rparr>))"
    by (simp add: newRiskManager_def example_config_def)
  have c: "dailyLoss (newRiskManager (example_config\<lparr>cfg_maxPositionSize := num 1\<rparr>))
         = dailyLoss (newRiskManager (example_config\<lparr>cfg_maxPositionSize := num 1000\<rparr>))"
    by (simp add: newRiskManager_def example_config_def)
  have d: "maxPositionSize (newRiskManager (example_config\<lparr>cfg_maxPositionSize := num 1\<rparr>))
     \<noteq> maxPositionSize (newRiskManager (example_config\<lparr>cfg_maxPositionSize := num 1000\<rparr>))"
    by (simp add: newRiskManager_def example_config_def js_or_def)
  from d validateTrade_ignores_maxPositionSize [OF a b c] show ?thesis by blast
qed

section \<open>The join of the four providers\<close>

lemma earliest_mem: "earliest r rs \<in> set (r # rs)"
  by (induction rs arbitrary: r) auto

lemma earliest_le_start: "fst (earliest r rs) \<le> fst r"
proof (induction rs arbitrary: r)
  case Nil
  then show ?case by simp
next
  case (Cons r' rs)
  have "fst (earliest (if fst r' < fst r then r' else r) rs)
          \<le> fst (if fst r' < fst r then r' else r)"
    by (rule Cons.IH)
  then show ?case by (auto split: if_splits)
qed

lemma earliest_min: "x \<in> set (r # rs) \<Longrightarrow> fst (earliest r rs) \<le> fst x"
proof (induction rs arbitrary: r)
  case Nil
  then show ?case by simp
next
  case (Cons r' rs)
  let ?m = "if fst r' < fst r then r' else r"
  have step: "fst (earliest ?m rs) \<le> fst ?m"
    by (rule earliest_le_start)
  from Cons.prems consider "x = r" | "x = r'" | "x \<in> set rs" by auto
  then show ?case
  proof cases
    case 1
    with step show ?thesis by (auto split: if_splits)
  next
    case 2
    with step show ?thesis by (auto split: if_splits)
  next
    case 3
    then have "x \<in> set (?m # rs)" by simp
    then have "fst (earliest ?m rs) \<le> fst x" by (rule Cons.IH)
    then show ?thesis by simp
  qed
qed

lemma promise_all4_rejected:
  assumes "rejection p1 @ rejection p2 @ rejection p3 @ rejection p4 \<noteq> []"
  shows "\<exists>t e. promise_all4 p1 p2 p3 p4 = Inl e
           \<and> (t, e) \<in> set (rejection p1 @ rejection p2 @ rejection p3 @ rejection p4)
           \<and> (\<forall>x \<in> set (rejection p1 @ rejection p2 @ rejection p3 @ rejection p4). t \<le> fst x)"
proof -
  let ?rs = "rejection p1 @ rejection p2 @ rejection p3 @ rejection p4"
  from assms obtain r rs where rs: "?rs = r # rs" by (cases ?rs) auto
  have pa: "promise_all4 p1 p2 p3 p4 = Inl (snd (earliest r rs))"
    using rs by (auto simp: promise_all4_def rejection_def split: sum.splits)
  have "(fst (earliest r rs), snd (earliest r rs)) \<in> set ?rs"
    using earliest_mem [of r rs] rs by simp
  moreover have "\<forall>x \<in> set ?rs. fst (earliest r rs) \<le> fst x"
    using earliest_min [of _ r rs] rs by simp
  ultimately show ?thesis using pa by blast
qed

lemma promise_all4_fulfilled:
  assumes "outcome p1 = Inr a" "outcome p2 = Inr b" "outcome p3 = Inr c" "outcome p4 = Inr d"
  shows "promise_all4 p1 p2 p3 p4 = Inr (a, b, c, d)"
  using assms by (simp add: promise_all4_def)


lemma rejection_empty_iff: "rejection p = [] \<longleftrightarrow> \<not> isl (outcome p)"
  by (cases "outcome p") (simp_all add: rejection_def)

lemma not_isl_Inr: "\<not> isl x \<Longrightarrow> \<exists>v. x = Inr v"
  by (cases x) simp_all

lemma analyze_rejected:
  assumes "provider_rejections env tk ch \<noteq> []"
  shows "\<exists>t e. analyzeTradeOpportunity env tk ch = Inl e
           \<and> (t, e) \<in> set (provider_rejections env tk ch)
           \<and> (\<forall>x \<in> set (provider_rejections env tk ch). t \<le> fst x)"
proof -
  from promise_all4_rejected [OF assms [unfolded provider_rejections_def]]
  obtain t e where
    pa: "promise_all4 (getWhaleActivity env tk ch) (getTokenMetrics env tk)
           (getSmartMoneyFlow env tk) (assessManipulation env tk) = Inl e"
    and mem: "(t, e) \<in> set (provider_rejections env tk ch)"
    and least: "\<forall>x \<in> set (provider_rejections env tk ch). t \<le> fst x"
    unfolding provider_rejections_def by blast
  have "analyzeTradeOpportunity env tk ch = Inl e"
    by (simp add: analyzeTradeOpportunity_def pa)
  with mem least show ?thesis by blast
qed

lemma analyze_fulfilled:
  assumes "outcome (getWhaleActivity env tk ch) = Inr wa"
    and "outcome (getTokenMetrics env tk) = Inr tm"
    and "outcome (getSmartMoneyFlow env tk) = Inr smf"
    and "outcome (assessManipulation env tk) = Inr ms"
  shows "\<exists>a. analyzeTradeOpportunity env tk ch = Inr a
           \<and> details a = \<lparr>whaleActivity = wa, tokenMetrics = tm, smartMoneyFlow = smf,
                           manipulationScore = ms\<rparr>"
  by (simp add: analyzeTradeOpportunity_def promise_all4_fulfilled [OF assms] Let_def)

text \<open>
  C4. The four provider calls are joined by \<open>Promise.all\<close>. If any one of them fails,
  the whole analysis fails: the result is an error and nothing else, namely the reason of
  a rejected provider that no other rejected provider precedes, so no snapshot and no
  score reaches the caller. If none fails, the analysis is returned and its details hold
  the four results.
\<close>

theorem analyzeTradeOpportunity_fail_fast:
  "((isl (outcome (getWhaleActivity env tk ch)) \<or> isl (outcome (getTokenMetrics env tk))
      \<or> isl (outcome (getSmartMoneyFlow env tk)) \<or> isl (outcome (assessManipulation env tk)))
     \<longrightarrow> (\<exists>t e. analyzeTradeOpportunity env tk ch = Inl e
            \<and> (t, e) \<in> set (provider_rejections env tk ch)
            \<and> (\<forall>x \<in> set (provider_rejections env tk ch). t \<le> fst x)))
   \<and> (\<not> (isl (outcome (getWhaleActivity env tk ch)) \<or> isl (outcome (getTokenMetrics env tk))
      \<or> isl (outcome (getSmartMoneyFlow env tk)) \<or> isl (outcome (assessManipulation env tk)))
     \<longrightarrow> (\<exists>a wa tm smf ms. analyzeTradeOpportunity env tk ch = Inr a
            \<and> outcome (getWhaleActivity env tk ch) = Inr wa
            \<and> outcome (getTokenMetrics env tk) = Inr tm
            \<and> outcome (getSmartMoneyFlow env tk) = Inr smf
            \<and> outcome (assessManipulation env tk) = Inr ms
            \<and> details a = \<lparr>whaleActivity = wa, tokenMetrics = tm, smartMoneyFlow = smf,
                            manipulationScore = ms\<rparr>))"
proof (intro conjI impI)
  assume "isl (outcome (getWhaleActivity env tk ch)) \<or> isl (outcome (getTokenMetrics env tk))
      \<or> isl (outcome (getSmartMoneyFlow env tk)) \<or> isl (outcome (assessManipulation env tk))"
  then have "provider_rejections env tk ch \<noteq> []"
    by (auto simp: provider_rejections_def rejection_empty_iff)
  then show "\<exists>t e. analyzeTradeOpportunity env tk ch = Inl e
            \<and> (t, e) \<in> set (provider_rejections env tk ch)
            \<and> (\<forall>x \<in> set (provider_rejections env tk ch). t \<le> fst x)"
    by (rule analyze_rejected)
next
  assume none: "\<not> (isl (outcome (getWhaleActivity env tk ch)) \<or> isl (outcome (getTokenMetrics env tk))
      \<or> isl (outcome (getSmartMoneyFlow env tk)) \<or> isl (outcome (assessManipulation env tk)))"
  then obtain wa tm smf ms where o:
    "outcome (getWhaleActivity env tk ch) = Inr wa" "outcome (getTokenMetrics env tk) = Inr tm"
    "outcome (getSmartMoneyFlow env tk) = Inr smf" "outcome (assessManipulation env tk) = Inr ms"
    using not_isl_Inr by metis
  from analyze_fulfilled [OF o] o
  show "\<exists>a wa tm smf ms. analyzeTradeOpportunity env tk ch = Inr a
            \<and> outcome (getWhaleActivity env tk ch) = Inr wa
            \<and> outcome (getTokenMetrics env tk) = Inr tm
            \<and> outcome (getSmartMoneyFlow env tk) = Inr smf
            \<and> outcome (assessManipulation env tk) = Inr ms
            \<and> details a = \<lparr>whaleActivity = wa, tokenMetrics = tm, smartMoneyFlow = smf,
                            manipulationScore = ms\<rparr>"
    by blast
qed

theorem analyzeTradeOpportunity_fail_fast_witness:
  "isl (outcome (getTokenMetrics failing_env ''0xabc''))
   \<and> analyzeTradeOpportunity failing_env ''0xabc'' ''eth'' = Inl ''token metrics unavailable''
   \<and> \<not> (isl (outcome (getWhaleActivity example_env ''0xabc'' ''eth''))
        \<or> isl (outcome (getTokenMetrics example_env ''0xabc''))
        \<or> isl (outcome (getSmartMoneyFlow example_env ''0xabc''))
        \<or> isl (outcome (assessManipulation example_env ''0xabc'')))
   \<and> (\<exists>a. analyzeTradeOpportunity example_env ''0xabc'' ''eth'' = Inr a
         \<and> tokenMetrics (details a) =
             \<lparr>holderDistribution = num 0.5, liquidityDepth = num 0.5,
              volumeProfile = num 0.5, priceImpact = num 0.1\<rparr>)"
proof -
  have f: "isl (outcome (getTokenMetrics failing_env ''0xabc''))"
    by (simp add: failing_env_def)
  have r: "provider_rejections failing_env ''0xabc'' ''eth'' = [(1, ''token metrics unavailable'')]"
    by (simp add: provider_rejections_def rejection_def failing_env_def example_env_def)
  have g: "\<not> (isl (outcome (getWhaleActivity example_env ''0xabc'' ''eth''))
        \<or> isl (outcome (getTokenMetrics example_env ''0xabc''))
        \<or> isl (outcome (getSmartMoneyFlow example_env ''0xabc''))
        \<or> isl (outcome (assessManipulation example_env ''0xabc'')))"
    by (simp add: example_env_def)
  have tm: "outcome (getTokenMetrics example_env ''0xabc'') =
      Inr \<lparr>holderDistribution = num 0.5, liquidityDepth = num 0.5,
              volumeProfile = num 0.5, priceImpact = num 0.1\<rparr>"
    by (simp add: example_env_def)
  from analyzeTradeOpportunity_fail_fast [of failing_env "''0xabc''" "''eth''"] f r
  have 1: "analyzeTradeOpportunity failing_env ''0xabc'' ''eth'' = Inl ''token metrics unavailable''"
    by auto
  from analyzeTradeOpportunity_fail_fast [of example_env "''0xabc''" "''eth''"] g tm
  have 2: "\<exists>a. analyzeTradeOpportunity example_env ''0xabc'' ''eth'' = Inr a
         \<and> tokenMetrics (details a) =
             \<lparr>holderDistribution = num 0.5, liquidityDepth = num 0.5,
              volumeProfile = num 0.5, priceImpact = num 0.1\<rparr>"
    by auto
  from f 1 g 2 show ?thesis by blast
qed

section \<open>Take-profit targets\<close>

subsection \<open>The comparison function orders the numbers that are not NaN\<close>





subsection \<open>The sort\<close>







subsection \<open>The position sizing\<close>





subsection \<open>The handler\<close>





section \<open>The whale score is a weighted sum\<close>





section \<open>The scores that reach the decision table\<close>

lemma determineAction_without_overallScore:
  "overallScore scores = JUndefined \<Longrightarrow> determineAction scores \<noteq> BUY"
  by (simp add: determineAction_def js_gt_def num_gt_def)

lemma analyzeSmartMoney_not_a_number: "ToNumber (analyzeSmartMoney env flow) = NaN"
  by (simp add: analyzeSmartMoney_def Let_def)

lemma determineAction_smartMoney_object:
  "determineAction (scores\<lparr>smartMoneyScore := analyzeSmartMoney env flow\<rparr>) \<noteq> STRONG_BUY"
  by (simp add: determineAction_def js_gt_def num_gt_def analyzeSmartMoney_not_a_number)

lemma analyzeTradeOpportunity_actions:
  assumes "analyzeTradeOpportunity env tk ch = Inr a"
  shows "action (recommendation a) \<in> {AVOID, WAIT, MONITOR}"
proof -
  from assms obtain scores flow where
    "recommendation a = generateTradeRecommendation env
       (scores\<lparr>smartMoneyScore := analyzeSmartMoney env flow, overallScore := JUndefined\<rparr>)"
    by (fastforce simp: analyzeTradeOpportunity_def Let_def split: sum.splits prod.splits
        intro: that [where scores = "\<lparr>whaleScore = _, healthScore = _, smartMoneyScore = _,
                                       riskScore = _, overallScore = _\<rparr>"])
  then have act: "action (recommendation a) = determineAction
       (scores\<lparr>smartMoneyScore := analyzeSmartMoney env flow, overallScore := JUndefined\<rparr>)"
    by (simp add: generateTradeRecommendation_def Let_def)
  have "determineAction
       (scores\<lparr>smartMoneyScore := analyzeSmartMoney env flow, overallScore := JUndefined\<rparr>)
          \<noteq> BUY"
    by (rule determineAction_without_overallScore) simp
  moreover have "determineAction
       (scores\<lparr>smartMoneyScore := analyzeSmartMoney env flow, overallScore := JUndefined\<rparr>)
          \<noteq> STRONG_BUY"
    by (simp add: determineAction_def js_gt_def num_gt_def analyzeSmartMoney_not_a_number)
  ultimately show ?thesis
    unfolding act
    by (cases "determineAction
       (scores\<lparr>smartMoneyScore := analyzeSmartMoney env flow, overallScore := JUndefined\<rparr>)")
      simp_all
qed

text \<open>
  C2. The scores 0.8, 0.9, 0.8 and 0.9 have the weighted sum 0.845, above 0.75, and pass
  the first three rules. \<open>generateTradeRecommendation\<close> is called with the four scores and
  no overall score, as \<open>analyzeTradeOpportunity\<close> calls it; \<open>determineAction\<close> then reads
  \<open>undefined\<close> for the overall score, and the action is \<open>MONITOR\<close>. With the overall score in
  the object the action is \<open>BUY\<close>.
\<close>

theorem generateTradeRecommendation_monitor_above_threshold:
  "action (generateTradeRecommendation env
             \<lparr>whaleScore = num 0.8, healthScore = num 0.9, smartMoneyScore = num 0.8,
              riskScore = num 0.9, overallScore = JUndefined\<rparr>) = MONITOR
   \<and> (0.75::real) < 0.3 * 0.8 + 0.25 * 0.9 + 0.25 * 0.8 + 0.2 * 0.9
   \<and> determineAction
        \<lparr>whaleScore = num 0.8, healthScore = num 0.9, smartMoneyScore = num 0.8,
         riskScore = num 0.9,
         overallScore = num (0.3 * 0.8 + 0.25 * 0.9 + 0.25 * 0.8 + 0.2 * 0.9)\<rparr> = BUY"
  by (simp add: generateTradeRecommendation_def determineAction_def Let_def
      js_lt_def js_gt_def num_gt_def)

text \<open>
  C8. \<open>analyzeSmartMoney\<close> returns an object, whose property \<open>score\<close> is the weighted sum,
  here 0.75. \<open>analyzeTradeOpportunity\<close> passes the object on as the smart-money score, and
  the comparison of an object with 0.7 is false: with a risk score of 0.8, a whale score
  of 0.85 and a health score of 0.9 the action is \<open>MONITOR\<close>, where the number 0.75 in its
  place gives \<open>STRONG_BUY\<close>.
\<close>

theorem analyzeSmartMoney_object_blocks_strong_buy:
  "js_get (analyzeSmartMoney example_env example_flow) ''score'' = num 0.75
   \<and> determineAction
        \<lparr>whaleScore = num 0.85, healthScore = num 0.9,
         smartMoneyScore = js_get (analyzeSmartMoney example_env example_flow) ''score'',
         riskScore = num 0.8, overallScore = JUndefined\<rparr> = STRONG_BUY
   \<and> determineAction
        \<lparr>whaleScore = num 0.85, healthScore = num 0.9,
         smartMoneyScore = analyzeSmartMoney example_env example_flow,
         riskScore = num 0.8, overallScore = JUndefined\<rparr> = MONITOR
   \<and> map_sum id (\<lambda>a. action (recommendation a))
        (analyzeTradeOpportunity example_env ''0xabc'' ''eth'') = Inr MONITOR"
  by (simp add: analyzeSmartMoney_def example_env_def example_flow_def Let_def
      determineAction_def js_lt_def js_gt_def num_gt_def js_sub_def js_mul_def js_div_def
      num_sub_def analyzeTradeOpportunity_def promise_all4_def
      generateTradeRecommendation_def calculateWhaleScore_def unit_normalize_def)

section \<open>\<open>executeTrade\<close> calls itself\<close>

lemma takeProfitEntries_aligned:
  "index + length ts \<le> length ps \<Longrightarrow> \<exists>es. takeProfitEntries trade ps index ts = Inr es"
proof (induction ts arbitrary: index)
  case Nil
  then show ?case by simp
next
  case (Cons t ts)
  from Cons.prems have "Suc index + length ts \<le> length ps" and "index < length ps" by simp_all
  with Cons.IH [of "Suc index"] show ?case by auto
qed

lemma validateStrategy_stopLoss:
  "validateStrategy m s (trade\<lparr>takeProfitTargets_t := es, stopLoss := v\<rparr>)
     = validateStrategy m s trade"
  by (simp add: validateStrategy_def validateTrade_def)

lemma prepares_again:
  "prepares m trade \<Longrightarrow> prepares m (trade\<lparr>takeProfitTargets_t := es, stopLoss := v\<rparr>)"
  by (simp add: prepares_def validateStrategy_stopLoss split: option.splits)

lemma executeTrade_returns_imp_not_prepares:
  "executeTrade m trade = Some r \<Longrightarrow> \<not> prepares m trade"
proof (induction rule: executeTrade.raw_induct [rotated 1, consumes 1])
  case (1 exec m trade r)
  show ?case
  proof
    assume p: "prepares m trade"
    then obtain s where s: "find enabled (map snd (strategies m)) = Some s"
      and v: "valid (validateStrategy m s trade)"
      and len: "length (takeProfitTargets (entryConditions s))
               \<le> length (positionSizing (entryConditions s))"
      by (auto simp: prepares_def split: option.splits)
    from takeProfitEntries_aligned [of 0 "takeProfitTargets (entryConditions s)"
        "positionSizing (entryConditions s)" trade] len
    obtain es where es: "takeProfitEntries trade (positionSizing (entryConditions s)) 0
        (takeProfitTargets (entryConditions s)) = Inr es"
      by auto
    from "1.hyps" have "exec m (trade\<lparr>takeProfitTargets_t := Some es,
        stopLoss := JNum (ec_stopLoss (entryConditions s))\<rparr>) = Some r"
      by (simp add: s v es Let_def)
    then have "\<not> prepares m (trade\<lparr>takeProfitTargets_t := Some es,
        stopLoss := JNum (ec_stopLoss (entryConditions s))\<rparr>)"
      by (rule "1.IH")
    with prepares_again [OF p] show False by blast
  qed
qed

lemma executeTrade_never_settles: "prepares m trade \<Longrightarrow> executeTrade m trade = None"
  using executeTrade_returns_imp_not_prepares [of m trade] by (cases "executeTrade m trade") auto

lemma executeTrade_settles_rejected: "executeTrade m trade = Some r \<Longrightarrow> isl r"
proof (induction rule: executeTrade.raw_induct [rotated 1, consumes 1])
  case (1 exec m trade r)
  from "1.hyps" "1.IH" show ?case
    by (auto simp: Let_def split: option.splits if_splits sum.splits)
qed

text \<open>
  C5. With the strategy \<open>breakout\<close> enabled, a trade of size 50 at the entry price 100 is
  valid (its potential loss is 1, the limit is 2) and is prepared; \<open>executeTrade\<close> then
  calls itself with the prepared trade, which is valid and prepared again, and so on: the
  call never settles. Without an enabled strategy the call is rejected, and with a trade
  of size 150 the validation fails.
\<close>

theorem executeTrade_example_never_settles:
  "executeTrade (activate example_manager ''breakout'')
     \<lparr>size_t = num 50, entryPrice = num 100, stopLoss = JUndefined, takeProfitTargets_t = None\<rparr>
     = None
   \<and> executeTrade example_manager
       \<lparr>size_t = num 50, entryPrice = num 100, stopLoss = JUndefined, takeProfitTargets_t = None\<rparr>
     = Some (Inl NoActiveStrategy)
   \<and> executeTrade (activate example_manager ''breakout'')
       \<lparr>size_t = num 150, entryPrice = num 100, stopLoss = JUndefined, takeProfitTargets_t = None\<rparr>
     = Some (Inl (TradeValidationFailed (Some (TradeRiskExceedsMaxLoss (num 2)))))"
proof (intro conjI)
  have "prepares (activate example_manager ''breakout'')
     \<lparr>size_t = num 50, entryPrice = num 100, stopLoss = JUndefined, takeProfitTargets_t = None\<rparr>"
    by code_simp
  then show "executeTrade (activate example_manager ''breakout'')
     \<lparr>size_t = num 50, entryPrice = num 100, stopLoss = JUndefined, takeProfitTargets_t = None\<rparr>
     = None"
    by (rule executeTrade_never_settles)
next
  have "find enabled (map snd (strategies example_manager)) = None"
    by code_simp
  then show "executeTrade example_manager
       \<lparr>size_t = num 50, entryPrice = num 100, stopLoss = JUndefined, takeProfitTargets_t = None\<rparr>
     = Some (Inl NoActiveStrategy)"
    by (subst executeTrade.simps) simp
next
  have "find enabled (map snd (strategies (activate example_manager ''breakout'')))
      = Some \<lparr>name = ''Smart Breakout Trading'',
              description = ''Trades breakouts with volume confirmation'',
              entryConditions = threeTargets 6 12 18, enabled = True\<rparr>"
    by code_simp
  moreover have "validateStrategy (activate example_manager ''breakout'')
       \<lparr>name = ''Smart Breakout Trading'',
        description = ''Trades breakouts with volume confirmation'',
        entryConditions = threeTargets 6 12 18, enabled = True\<rparr>
       \<lparr>size_t = num 150, entryPrice = num 100, stopLoss = JUndefined, takeProfitTargets_t = None\<rparr>
      = \<lparr>valid = False, reason = Some (TradeRiskExceedsMaxLoss (num 2))\<rparr>"
    by code_simp
  ultimately show "executeTrade (activate example_manager ''breakout'')
       \<lparr>size_t = num 150, entryPrice = num 100, stopLoss = JUndefined, takeProfitTargets_t = None\<rparr>
     = Some (Inl (TradeValidationFailed (Some (TradeRiskExceedsMaxLoss (num 2)))))"
    by (subst executeTrade.simps) simp
qed

section \<open>The daily reset\<close>

text \<open>
  The callback of the scheduled job sets the accumulator to 0 and leaves the limits as
  they are, so a validation that follows it reads 0. When the job runs is decided by the
  scheduler, which is outside this model.
\<close>

lemma resetDailyLoss_job_zero:
  "dailyLoss (resetDailyLoss_job rm) = num 0
   \<and> maxDailyLoss (resetDailyLoss_job rm) = maxDailyLoss rm
   \<and> maxLossPerTrade (resetDailyLoss_job rm) = maxLossPerTrade rm
   \<and> maxPositionSize (resetDailyLoss_job rm) = maxPositionSize rm"
  by (simp add: resetDailyLoss_job_def)

lemma validateTrade_after_reset:
  "validateTrade (resetDailyLoss_job rm) trade = validateTrade (rm\<lparr>dailyLoss := num 0\<rparr>) trade"
  by (simp add: resetDailyLoss_job_def)

end
